theory Spec2Isabelle
  imports Complex_Main
begin

section \<open>JavaScript numeric primitives\<close>

text \<open>
  The derived-metric functions of the dashboard compute on JavaScript numbers. They are
  embedded over \<^typ>\<open>real\<close>: every finite number the code can hold is a real, and the
  arithmetic is taken exactly. The primitives below are the ones the source calls.

  \<^verbatim>\<open>Math.round(x)\<close> is the integer nearest to \<open>x\<close>, a tie going towards plus infinity.
\<close>

definition js_round :: "real \<Rightarrow> int" where
  "js_round x = \<lfloor>x + 1 / 2\<rfloor>"

text \<open>\<^verbatim>\<open>Math.floor\<close> and the truncation used by the remainder operator.\<close>

definition js_floor :: "real \<Rightarrow> int" where
  "js_floor x = \<lfloor>x\<rfloor>"

definition js_trunc :: "real \<Rightarrow> int" where
  "js_trunc x = (if x < 0 then \<lceil>x\<rceil> else \<lfloor>x\<rfloor>)"

text \<open>
  The operator \<^verbatim>\<open>x % y\<close> on numbers is the truncated remainder: the result has the sign
  of the dividend \<open>x\<close>. The source only divides by the nonzero constants \<open>1\<close> and
  \<open>29.53058867\<close>.
\<close>

definition js_rem :: "real \<Rightarrow> real \<Rightarrow> real" where
  "js_rem x y = x - y * of_int (js_trunc (x / y))"

section \<open>Flood impact estimator\<close>

text \<open>
  \<^verbatim>\<open>const SARDIS_LAKE_DATA = { ..., normalPoolElevation: 599, floodStageElevation: 607,
     streamBedElevation: 530, topOfDamElevation: 631, ... }\<close>
\<close>

record LakeData =
  normalPoolElevation :: real
  floodStageElevation :: real
  streamBedElevation :: real
  topOfDamElevation :: real

definition SARDIS_LAKE_DATA :: LakeData where
  "SARDIS_LAKE_DATA =
     \<lparr>normalPoolElevation = 599, floodStageElevation = 607,
      streamBedElevation = 530, topOfDamElevation = 631\<rparr>"

record FloodImpact =
  additionalAcres :: int
  impactedStructures :: int
  evacuationZone :: int
  difference :: real

text \<open>
  \<^verbatim>\<open>
  const calculateFloodImpact = useCallback((elevation) => {
    const normalPool = SARDIS_LAKE_DATA.normalPoolElevation;
    const difference = elevation - normalPool;
    const additionalAcres = difference > 0 ? Math.round(difference * 180) : 0;
    const impactedStructures = difference > 5 ? Math.round((difference - 5) * 12) : 0;
    const evacuationZone = difference > 8 ? Math.round((difference - 8) * 0.5) : 0;
    return { additionalAcres, impactedStructures, evacuationZone, difference };
  }, []);
  \<close>
\<close>

definition calculateFloodImpact :: "real \<Rightarrow> FloodImpact" where
  "calculateFloodImpact elevation =
     (let normalPool = normalPoolElevation SARDIS_LAKE_DATA;
          difference = elevation - normalPool;
          additionalAcres = (if difference > 0 then js_round (difference * 180) else 0);
          impactedStructures = (if difference > 5 then js_round ((difference - 5) * 12) else 0);
          evacuationZone = (if difference > 8 then js_round ((difference - 8) * 0.5) else 0)
      in \<lparr>additionalAcres = additionalAcres, impactedStructures = impactedStructures,
          evacuationZone = evacuationZone, difference = difference\<rparr>)"

section \<open>Number formatting\<close>

text \<open>
  Decimal digits of a natural number, and of an integer as a template literal
  \<^verbatim>\<open>${n}\<close> prints it.
\<close>

definition digit_char :: "nat \<Rightarrow> char" where
  "digit_char d = ''0123456789'' ! d"

fun string_of_nat :: "nat \<Rightarrow> string" where
  "string_of_nat n =
     (if n < 10 then [digit_char n]
      else string_of_nat (n div 10) @ [digit_char (n mod 10)])"

declare string_of_nat.simps [simp del]

definition string_of_int :: "int \<Rightarrow> string" where
  "string_of_int i = (if i < 0 then ''-'' @ string_of_nat (nat (- i)) else string_of_nat (nat i))"

text \<open>
  \<^verbatim>\<open>x.toFixed(1)\<close>: a negative \<open>x\<close> prints a minus sign and its absolute value; the
  digits are those of the integer \<open>n\<close> for which \<open>n / 10\<close> is nearest to \<open>x\<close>, the larger
  \<open>n\<close> on a tie. (ECMAScript switches to exponent notation from \<open>10^21\<close> on, far beyond
  any elevation in feet; the model covers the fixed-point notation.)
\<close>

definition toFixed1_digits :: "real \<Rightarrow> string" where
  "toFixed1_digits x =
     (let n = nat \<lfloor>x * 10 + 1 / 2\<rfloor>
      in string_of_nat (n div 10) @ ''.'' @ string_of_nat (n mod 10))"

definition toFixed1 :: "real \<Rightarrow> string" where
  "toFixed1 x = (if x < 0 then ''-'' @ toFixed1_digits (- x) else toFixed1_digits x)"

section \<open>Boat ramp accessibility classifier\<close>

record BoatRamp =
  id_ramp :: string
  name_ramp :: string
  location :: string
  minElevation :: real
  optimalElevation :: real
  coordinates :: "real \<times> real"
  amenities :: "string list"
  parkingSpaces :: nat
  phone :: "string option"

datatype RampStatus = open_ramp | limited_ramp | closed_ramp

record RampStatusResult =
  status :: RampStatus
  message :: string
  launchable :: "string list"

text \<open>
  \<^verbatim>\<open>
  function getRampStatus(ramp: BoatRamp, currentElevation: number) {
    const diff = currentElevation - ramp.minElevation;
    if (currentElevation >= ramp.optimalElevation) {
      return { status: 'open', message: 'Fully operational - optimal conditions',
               launchable: ['All vessels', 'Large boats', 'Pontoons', 'PWC'] };
    } else if (currentElevation >= ramp.minElevation + 3) {
      return { status: 'open', message: 'Accessible - good conditions',
               launchable: ['Most boats', 'Medium vessels', 'PWC'] };
    } else if (currentElevation >= ramp.minElevation) {
      return { status: 'limited',
               message: `Limited access - ${diff.toFixed(1)} ft above minimum`,
               launchable: ['Small boats', 'Kayaks', 'Canoes', 'PWC'] };
    } else {
      return { status: 'closed',
               message: `Closed - water ${Math.abs(diff).toFixed(1)} ft below minimum`,
               launchable: [] };
    }
  }
  \<close>
\<close>

definition getRampStatus :: "'a BoatRamp_scheme \<Rightarrow> real \<Rightarrow> RampStatusResult" where
  "getRampStatus ramp currentElevation =
     (let diff = currentElevation - minElevation ramp
      in if currentElevation \<ge> optimalElevation ramp then
           \<lparr>status = open_ramp,
            message = ''Fully operational - optimal conditions'',
            launchable = [''All vessels'', ''Large boats'', ''Pontoons'', ''PWC'']\<rparr>
         else if currentElevation \<ge> minElevation ramp + 3 then
           \<lparr>status = open_ramp,
            message = ''Accessible - good conditions'',
            launchable = [''Most boats'', ''Medium vessels'', ''PWC'']\<rparr>
         else if currentElevation \<ge> minElevation ramp then
           \<lparr>status = limited_ramp,
            message = ''Limited access - '' @ toFixed1 diff @ '' ft above minimum'',
            launchable = [''Small boats'', ''Kayaks'', ''Canoes'', ''PWC'']\<rparr>
         else
           \<lparr>status = closed_ramp,
            message = ''Closed - water '' @ toFixed1 \<bar>diff\<bar> @ '' ft below minimum'',
            launchable = []\<rparr>)"

text \<open>The first entry of \<^verbatim>\<open>BOAT_RAMPS\<close>.\<close>

definition potato_hills :: BoatRamp where
  "potato_hills =
     \<lparr>id_ramp = ''potato-hills'', name_ramp = ''Potato Hills North'',
      location = ''North Shore'', minElevation = 590, optimalElevation = 595,
      coordinates = (34.6850, - 95.3750),
      amenities = [''Parking'', ''Restrooms'', ''Fish Cleaning Station'', ''Camping''],
      parkingSpaces = 75, phone = Some ''(918) 567-2523''\<rparr>"

section \<open>Recreation day rating\<close>

datatype Rating = Excellent | Good | Fair | Poor

record DayInput =
  tempHigh :: real
  precipProbability :: real
  windSpeed :: real
  weatherCode :: real

text \<open>
  \<^verbatim>\<open>
  const rateDayForRecreation = (day) => {
    let score = 100;
    if (day.tempHigh < 50 || day.tempHigh > 95) score -= 30;
    else if (day.tempHigh < 60 || day.tempHigh > 90) score -= 15;
    else if (day.tempHigh >= 70 && day.tempHigh <= 85) score += 10;
    if (day.precipProbability > 70) score -= 40;
    else if (day.precipProbability > 40) score -= 20;
    else if (day.precipProbability > 20) score -= 10;
    if (day.windSpeed > 25) score -= 25;
    else if (day.windSpeed > 15) score -= 10;
    if (day.weatherCode >= 95) score -= 30;
    else if (day.weatherCode >= 61) score -= 20;
    else if (day.weatherCode <= 3) score += 5;
    if (score >= 80) return 'Excellent';
    if (score >= 60) return 'Good';
    if (score >= 40) return 'Fair';
    return 'Poor';
  };
  \<close>
  The local variable \<open>score\<close>, as it stands before the bucketing, is
  \<open>rateDayForRecreation_score\<close>.
\<close>

definition rateDayForRecreation_score :: "'a DayInput_scheme \<Rightarrow> int" where
  "rateDayForRecreation_score day =
     (let score = 100;
          score = (if tempHigh day < 50 \<or> tempHigh day > 95 then score - 30
                   else if tempHigh day < 60 \<or> tempHigh day > 90 then score - 15
                   else if tempHigh day \<ge> 70 \<and> tempHigh day \<le> 85 then score + 10
                   else score);
          score = (if precipProbability day > 70 then score - 40
                   else if precipProbability day > 40 then score - 20
                   else if precipProbability day > 20 then score - 10
                   else score);
          score = (if windSpeed day > 25 then score - 25
                   else if windSpeed day > 15 then score - 10
                   else score);
          score = (if weatherCode day \<ge> 95 then score - 30
                   else if weatherCode day \<ge> 61 then score - 20
                   else if weatherCode day \<le> 3 then score + 5
                   else score)
      in score)"

definition rateDayForRecreation :: "'a DayInput_scheme \<Rightarrow> Rating" where
  "rateDayForRecreation day =
     (let score = rateDayForRecreation_score day
      in if score \<ge> 80 then Excellent
         else if score \<ge> 60 then Good
         else if score \<ge> 40 then Fair
         else Poor)"

section \<open>Astronomical calculator\<close>

text \<open>
  A \<^verbatim>\<open>Date\<close> is modelled by its time value, the milliseconds since
  1970-01-01T00:00:00Z that \<^verbatim>\<open>getTime()\<close> returns. Both moon functions build their
  reference new moon with \<^verbatim>\<open>new Date(2000, 0, 6, 18, 14, 0)\<close>, which is 18:14 on
  2000-01-06 in the local time zone of the browser; \<open>tzOffset\<close> is that zone's offset
  in minutes (UTC minus local time, as \<^verbatim>\<open>getTimezoneOffset()\<close> reports it; 0 for UTC,
  360 for America/Chicago in January). 2000-01-06T18:14:00Z is 947182440000 ms.
\<close>

type_synonym Date = real

definition newMoon :: "int \<Rightarrow> Date" where
  "newMoon tzOffset = 947182440000 + 60000 * of_int tzOffset"

record MoonInfo =
  phase :: string
  illumination :: int

text \<open>
  \<^verbatim>\<open>
  function getMoonPhase(date: Date) {
    const newMoon = new Date(2000, 0, 6, 18, 14, 0);
    const diff = date.getTime() - newMoon.getTime();
    const days = diff / 1000 / 60 / 60 / 24;
    const lunations = days / 29.53058867;
    const lunarDay = (lunations % 1) * 29.53058867;
    if (lunarDay < 1.85) { phase = 'New Moon'; illumination = 0; }
    else if (lunarDay < 5.53) { phase = 'Waxing Crescent'; illumination = 25; }
    else if (lunarDay < 9.22) { phase = 'First Quarter'; illumination = 50; }
    else if (lunarDay < 12.91) { phase = 'Waxing Gibbous'; illumination = 75; }
    else if (lunarDay < 16.61) { phase = 'Full Moon'; illumination = 100; }
    else if (lunarDay < 20.30) { phase = 'Waning Gibbous'; illumination = 75; }
    else if (lunarDay < 23.99) { phase = 'Last Quarter'; illumination = 50; }
    else if (lunarDay < 27.68) { phase = 'Waning Crescent'; illumination = 25; }
    else { phase = 'New Moon'; illumination = 0; }
    return { phase, illumination, icon };
  }
  \<close>
  The local \<open>lunarDay\<close> is \<open>getMoonPhase_lunarDay\<close>. The unused locals (\<open>year\<close>,
  \<open>month\<close>, \<open>day\<close>, \<open>lp\<close>) and the \<open>icon\<close> glyph, which is fixed by the phase,
  are left out.
\<close>

definition getMoonPhase_lunarDay :: "int \<Rightarrow> Date \<Rightarrow> real" where
  "getMoonPhase_lunarDay tzOffset date =
     (let diff = date - newMoon tzOffset;
          days = diff / 1000 / 60 / 60 / 24;
          lunations = days / 29.53058867
      in js_rem lunations 1 * 29.53058867)"

definition getMoonPhase :: "int \<Rightarrow> Date \<Rightarrow> MoonInfo" where
  "getMoonPhase tzOffset date =
     (let lunarDay = getMoonPhase_lunarDay tzOffset date
      in if lunarDay < 1.85 then \<lparr>phase = ''New Moon'', illumination = 0\<rparr>
         else if lunarDay < 5.53 then \<lparr>phase = ''Waxing Crescent'', illumination = 25\<rparr>
         else if lunarDay < 9.22 then \<lparr>phase = ''First Quarter'', illumination = 50\<rparr>
         else if lunarDay < 12.91 then \<lparr>phase = ''Waxing Gibbous'', illumination = 75\<rparr>
         else if lunarDay < 16.61 then \<lparr>phase = ''Full Moon'', illumination = 100\<rparr>
         else if lunarDay < 20.30 then \<lparr>phase = ''Waning Gibbous'', illumination = 75\<rparr>
         else if lunarDay < 23.99 then \<lparr>phase = ''Last Quarter'', illumination = 50\<rparr>
         else if lunarDay < 27.68 then \<lparr>phase = ''Waning Crescent'', illumination = 25\<rparr>
         else \<lparr>phase = ''New Moon'', illumination = 0\<rparr>)"

text \<open>
  \<^verbatim>\<open>
  function getMoonData(date: Date) {
    const newMoon = new Date(2000, 0, 6, 18, 14, 0);
    const diff = date.getTime() - newMoon.getTime();
    const lunarDay = ((diff / 1000 / 60 / 60 / 24) % 29.53058867 + 29.53058867) % 29.53058867;
    if (lunarDay < 1.85) { phase = 'New Moon'; illumination = 0; }
    else if (lunarDay < 5.53) { phase = 'Waxing Crescent';
      illumination = Math.round((lunarDay - 1.85) / 3.68 * 25); }
    else if (lunarDay < 9.22) { phase = 'First Quarter'; illumination = 50; }
    else if (lunarDay < 12.91) { phase = 'Waxing Gibbous';
      illumination = 50 + Math.round((lunarDay - 9.22) / 3.69 * 25); }
    else if (lunarDay < 16.61) { phase = 'Full Moon'; illumination = 100; }
    else if (lunarDay < 20.30) { phase = 'Waning Gibbous';
      illumination = 100 - Math.round((lunarDay - 16.61) / 3.69 * 25); }
    else if (lunarDay < 23.99) { phase = 'Last Quarter'; illumination = 50; }
    else if (lunarDay < 27.68) { phase = 'Waning Crescent';
      illumination = 50 - Math.round((lunarDay - 23.99) / 3.69 * 25); }
    else { phase = 'New Moon'; illumination = 0; }
    return { phase, illumination, icon };
  }
  \<close>
\<close>

definition getMoonData_lunarDay :: "int \<Rightarrow> Date \<Rightarrow> real" where
  "getMoonData_lunarDay tzOffset date =
     (let diff = date - newMoon tzOffset
      in js_rem (js_rem (diff / 1000 / 60 / 60 / 24) 29.53058867 + 29.53058867) 29.53058867)"

definition getMoonData :: "int \<Rightarrow> Date \<Rightarrow> MoonInfo" where
  "getMoonData tzOffset date =
     (let lunarDay = getMoonData_lunarDay tzOffset date
      in if lunarDay < 1.85 then \<lparr>phase = ''New Moon'', illumination = 0\<rparr>
         else if lunarDay < 5.53 then
           \<lparr>phase = ''Waxing Crescent'',
            illumination = js_round ((lunarDay - 1.85) / 3.68 * 25)\<rparr>
         else if lunarDay < 9.22 then \<lparr>phase = ''First Quarter'', illumination = 50\<rparr>
         else if lunarDay < 12.91 then
           \<lparr>phase = ''Waxing Gibbous'',
            illumination = 50 + js_round ((lunarDay - 9.22) / 3.69 * 25)\<rparr>
         else if lunarDay < 16.61 then \<lparr>phase = ''Full Moon'', illumination = 100\<rparr>
         else if lunarDay < 20.30 then
           \<lparr>phase = ''Waning Gibbous'',
            illumination = 100 - js_round ((lunarDay - 16.61) / 3.69 * 25)\<rparr>
         else if lunarDay < 23.99 then \<lparr>phase = ''Last Quarter'', illumination = 50\<rparr>
         else if lunarDay < 27.68 then
           \<lparr>phase = ''Waning Crescent'',
            illumination = 50 - js_round ((lunarDay - 23.99) / 3.69 * 25)\<rparr>
         else \<lparr>phase = ''New Moon'', illumination = 0\<rparr>)"

text \<open>One synodic month, the period of both functions, in milliseconds.\<close>

definition synodicMonth_ms :: real where
  "synodicMonth_ms = 29.53058867 * 24 * 60 * 60 * 1000"

text \<open>
  \<^verbatim>\<open>
  function getSolunarPeriods(date: Date, lat: number) {
    const moonPhase = getMoonPhase(date);
    const majorStart1 = (6 + Math.floor(moonPhase.illumination / 10)) % 24;
    const majorStart2 = (majorStart1 + 12) % 24;
    const minorStart1 = (majorStart1 + 6) % 24;
    const minorStart2 = (minorStart1 + 12) % 24;
    const formatPeriod = (start: number) => {
      const end = (start + 2) % 24;
      const startStr = start > 12 ? `${start - 12}pm` : start === 0 ? '12am' : `${start}am`;
      const endStr = end > 12 ? `${end - 12}pm` : end === 0 ? '12am' : `${end}am`;
      return `${startStr}-${endStr}`;
    };
    return { major: [formatPeriod(majorStart1), formatPeriod(majorStart2)],
             minor: [formatPeriod(minorStart1), formatPeriod(minorStart2)] };
  }
  \<close>
  The hours are integers; \<open>js_rem_int\<close> is the remainder operator on them.
\<close>

definition js_rem_int :: "int \<Rightarrow> int \<Rightarrow> int" where
  "js_rem_int a b = sgn a * (\<bar>a\<bar> mod \<bar>b\<bar>)"

definition formatPeriod :: "int \<Rightarrow> string" where
  "formatPeriod start =
     (let end = js_rem_int (start + 2) 24;
          startStr = (if start > 12 then string_of_int (start - 12) @ ''pm''
                      else if start = 0 then ''12am'' else string_of_int start @ ''am'');
          endStr = (if end > 12 then string_of_int (end - 12) @ ''pm''
                    else if end = 0 then ''12am'' else string_of_int end @ ''am'')
      in startStr @ ''-'' @ endStr)"

record SolunarPeriods =
  major :: "string list"
  minor :: "string list"

definition getSolunarPeriods :: "int \<Rightarrow> Date \<Rightarrow> real \<Rightarrow> SolunarPeriods" where
  "getSolunarPeriods tzOffset date lat =
     (let moonPhase = getMoonPhase tzOffset date;
          majorStart1 = js_rem_int (6 + js_floor (of_int (illumination moonPhase) / 10)) 24;
          majorStart2 = js_rem_int (majorStart1 + 12) 24;
          minorStart1 = js_rem_int (majorStart1 + 6) 24;
          minorStart2 = js_rem_int (minorStart1 + 12) 24
      in \<lparr>major = [formatPeriod majorStart1, formatPeriod majorStart2],
          minor = [formatPeriod minorStart1, formatPeriod minorStart2]\<rparr>)"

section \<open>Fishing activity scorer\<close>

datatype FactorStatus = positive_status | neutral_status | negative_status

datatype Activity = High | Moderate | Low

text \<open>
  An entry of \<^verbatim>\<open>FishingConditions['factors']\<close>; its \<open>detail\<close> display text is left out.
\<close>

record Factor =
  name_factor :: string
  score :: int
  status_factor :: FactorStatus

record Species =
  name_species :: string
  activity :: Activity

record FishingConditions =
  overallScore :: int
  rating :: Rating
  factors :: "Factor list"
  bestTime :: string
  targetSpecies :: "Species list"
  tips :: "string list"

text \<open>
  The \<^verbatim>\<open>current\<close> block of the Open-Meteo reply, with the readings the scorer uses.
\<close>

record Current =
  pressure_msl :: real
  wind_speed_10m :: real
  cloud_cover :: real

text \<open>
  \<^verbatim>\<open>
  if (pressure >= 30.0 && pressure <= 30.2) { pressureScore = 90; pressureStatus = 'positive'; }
  else if (pressure >= 29.8 && pressure < 30.0) { pressureScore = 75; pressureStatus = 'positive'; }
  else if (pressure > 30.2 && pressure <= 30.5) { pressureScore = 60; pressureStatus = 'neutral'; }
  else if (pressure < 29.8) { pressureScore = 40; pressureStatus = 'negative'; }
  else { pressureScore = 50; pressureStatus = 'neutral'; }
  factors.push({ name: 'Barometric Pressure', score: pressureScore, status: pressureStatus, ... });
  \<close>
\<close>

definition pressureFactor :: "real \<Rightarrow> Factor" where
  "pressureFactor pressure =
     (if pressure \<ge> 30.0 \<and> pressure \<le> 30.2 then
        \<lparr>name_factor = ''Barometric Pressure'', score = 90, status_factor = positive_status\<rparr>
      else if pressure \<ge> 29.8 \<and> pressure < 30.0 then
        \<lparr>name_factor = ''Barometric Pressure'', score = 75, status_factor = positive_status\<rparr>
      else if pressure > 30.2 \<and> pressure \<le> 30.5 then
        \<lparr>name_factor = ''Barometric Pressure'', score = 60, status_factor = neutral_status\<rparr>
      else if pressure < 29.8 then
        \<lparr>name_factor = ''Barometric Pressure'', score = 40, status_factor = negative_status\<rparr>
      else
        \<lparr>name_factor = ''Barometric Pressure'', score = 50, status_factor = neutral_status\<rparr>)"

text \<open>
  \<^verbatim>\<open>
  if (waterTemp >= 65 && waterTemp <= 75) { tempScore = 95; tempStatus = 'positive'; }
  else if (waterTemp >= 55 && waterTemp < 65) { tempScore = 70; tempStatus = 'neutral'; }
  else if (waterTemp > 75 && waterTemp <= 85) { tempScore = 65; tempStatus = 'neutral'; }
  else if (waterTemp < 55) { tempScore = 40; tempStatus = 'negative'; }
  else { tempScore = 35; tempStatus = 'negative'; }
  factors.push({ name: 'Water Temperature', score: tempScore, status: tempStatus, ... });
  \<close>
\<close>

definition tempFactor :: "real \<Rightarrow> Factor" where
  "tempFactor wTemp =
     (if wTemp \<ge> 65 \<and> wTemp \<le> 75 then
        \<lparr>name_factor = ''Water Temperature'', score = 95, status_factor = positive_status\<rparr>
      else if wTemp \<ge> 55 \<and> wTemp < 65 then
        \<lparr>name_factor = ''Water Temperature'', score = 70, status_factor = neutral_status\<rparr>
      else if wTemp > 75 \<and> wTemp \<le> 85 then
        \<lparr>name_factor = ''Water Temperature'', score = 65, status_factor = neutral_status\<rparr>
      else if wTemp < 55 then
        \<lparr>name_factor = ''Water Temperature'', score = 40, status_factor = negative_status\<rparr>
      else
        \<lparr>name_factor = ''Water Temperature'', score = 35, status_factor = negative_status\<rparr>)"

text \<open>
  \<^verbatim>\<open>
  if (wind >= 5 && wind <= 15) { windScore = 85; windStatus = 'positive'; }
  else if (wind < 5) { windScore = 60; windStatus = 'neutral'; }
  else if (wind > 15 && wind <= 25) { windScore = 55; windStatus = 'neutral'; }
  else { windScore = 30; windStatus = 'negative'; }
  factors.push({ name: 'Wind', score: windScore, status: windStatus, ... });
  \<close>
\<close>

definition windFactor :: "real \<Rightarrow> Factor" where
  "windFactor wind =
     (if wind \<ge> 5 \<and> wind \<le> 15 then
        \<lparr>name_factor = ''Wind'', score = 85, status_factor = positive_status\<rparr>
      else if wind < 5 then
        \<lparr>name_factor = ''Wind'', score = 60, status_factor = neutral_status\<rparr>
      else if wind > 15 \<and> wind \<le> 25 then
        \<lparr>name_factor = ''Wind'', score = 55, status_factor = neutral_status\<rparr>
      else
        \<lparr>name_factor = ''Wind'', score = 30, status_factor = negative_status\<rparr>)"

text \<open>
  \<^verbatim>\<open>
  if (moonPhase.phase === 'New Moon' || moonPhase.phase === 'Full Moon') {
    moonScore = 90; moonStatus = 'positive';
  } else if (moonPhase.phase === 'First Quarter' || moonPhase.phase === 'Last Quarter') {
    moonScore = 70; moonStatus = 'neutral';
  } else { moonScore = 55; moonStatus = 'neutral'; }
  factors.push({ name: 'Moon Phase', score: moonScore, status: moonStatus, ... });
  \<close>
\<close>

definition moonFactor :: "MoonInfo \<Rightarrow> Factor" where
  "moonFactor moonPhase =
     (if phase moonPhase = ''New Moon'' \<or> phase moonPhase = ''Full Moon'' then
        \<lparr>name_factor = ''Moon Phase'', score = 90, status_factor = positive_status\<rparr>
      else if phase moonPhase = ''First Quarter'' \<or> phase moonPhase = ''Last Quarter'' then
        \<lparr>name_factor = ''Moon Phase'', score = 70, status_factor = neutral_status\<rparr>
      else
        \<lparr>name_factor = ''Moon Phase'', score = 55, status_factor = neutral_status\<rparr>)"

text \<open>
  \<^verbatim>\<open>
  if (clouds >= 40 && clouds <= 70) { cloudScore = 85; cloudStatus = 'positive'; }
  else if (clouds > 70) { cloudScore = 70; cloudStatus = 'neutral'; }
  else { cloudScore = 55; cloudStatus = 'neutral'; }
  factors.push({ name: 'Cloud Cover', score: cloudScore, status: cloudStatus, ... });
  \<close>
\<close>

definition cloudFactor :: "real \<Rightarrow> Factor" where
  "cloudFactor clouds =
     (if clouds \<ge> 40 \<and> clouds \<le> 70 then
        \<lparr>name_factor = ''Cloud Cover'', score = 85, status_factor = positive_status\<rparr>
      else if clouds > 70 then
        \<lparr>name_factor = ''Cloud Cover'', score = 70, status_factor = neutral_status\<rparr>
      else
        \<lparr>name_factor = ''Cloud Cover'', score = 55, status_factor = neutral_status\<rparr>)"

text \<open>
  \<^verbatim>\<open>
  const tips: string[] = [];
  if (wind >= 5 && wind <= 15) tips.push('Fish the windward shoreline where baitfish concentrate');
  if (waterTemp >= 65 && waterTemp <= 75) tips.push('Topwater lures effective in early morning');
  if (pressure >= 29.8 && pressure <= 30.0) tips.push('Falling pressure - fish feeding aggressively');
  if (moonPhase.phase === 'Full Moon' || moonPhase.phase === 'New Moon')
    tips.push('Major solunar period - extended feeding windows');
  if (clouds >= 50) tips.push('Overcast conditions favor shallow water fishing');
  if (tips.length === 0) tips.push('Fish structure and cover in deeper water');
  \<close>
  Each \<open>push\<close> appends to the list built so far.
\<close>

definition generateTips :: "real \<Rightarrow> real \<Rightarrow> real \<Rightarrow> MoonInfo \<Rightarrow> real \<Rightarrow> string list" where
  "generateTips wind wTemp pressure moonPhase clouds =
     (let tips = [];
          tips = (if wind \<ge> 5 \<and> wind \<le> 15
                  then tips @ [''Fish the windward shoreline where baitfish concentrate'']
                  else tips);
          tips = (if wTemp \<ge> 65 \<and> wTemp \<le> 75
                  then tips @ [''Topwater lures effective in early morning'']
                  else tips);
          tips = (if pressure \<ge> 29.8 \<and> pressure \<le> 30.0
                  then tips @ [''Falling pressure - fish feeding aggressively'']
                  else tips);
          tips = (if phase moonPhase = ''Full Moon'' \<or> phase moonPhase = ''New Moon''
                  then tips @ [''Major solunar period - extended feeding windows'']
                  else tips);
          tips = (if clouds \<ge> 50
                  then tips @ [''Overcast conditions favor shallow water fishing'']
                  else tips);
          tips = (if length tips = 0
                  then tips @ [''Fish structure and cover in deeper water'']
                  else tips)
      in tips)"

text \<open>
  The object the \<^verbatim>\<open>try\<close> block of \<^verbatim>\<open>calculateConditions\<close> hands to
  \<^verbatim>\<open>setConditions\<close>, from the water temperature, the \<open>current\<close> readings, the moon
  phase and the solunar periods computed just before:
  \<^verbatim>\<open>
  const factors = [];
  const pressure = current.pressure_msl * 0.02953;
  ... factors.push(...) five times ...
  const wind = current.wind_speed_10m;
  const clouds = current.cloud_cover;
  const overallScore = Math.round(factors.reduce((sum, f) => sum + f.score, 0) / factors.length);
  if (overallScore >= 80) rating = 'Excellent';
  else if (overallScore >= 65) rating = 'Good';
  else if (overallScore >= 50) rating = 'Fair';
  else rating = 'Poor';
  const targetSpecies = [
    { name: 'Largemouth Bass',
      activity: waterTemp >= 60 && waterTemp <= 80 && overallScore >= 60 ? 'High' :
                waterTemp >= 50 && waterTemp <= 85 ? 'Moderate' : 'Low' },
    { name: 'Crappie',
      activity: waterTemp >= 55 && waterTemp <= 70 ? 'High' :
                waterTemp >= 45 && waterTemp <= 75 ? 'Moderate' : 'Low' },
    { name: 'Catfish',
      activity: waterTemp >= 70 && clouds >= 50 ? 'High' : waterTemp >= 60 ? 'Moderate' : 'Low' },
    { name: 'Bluegill',
      activity: waterTemp >= 65 && waterTemp <= 80 ? 'High' : waterTemp >= 55 ? 'Moderate' : 'Low' } ];
  setConditions({ overallScore, rating, factors, bestTime: solunar.major[0], targetSpecies, tips });
  \<close>
\<close>

definition scoredConditions ::
    "real \<Rightarrow> 'a Current_scheme \<Rightarrow> MoonInfo \<Rightarrow> SolunarPeriods \<Rightarrow> FishingConditions" where
  "scoredConditions wTemp current moonPhase solunar =
     (let factors = [];
          pressure = pressure_msl current * 0.02953;
          factors = factors @ [pressureFactor pressure];
          factors = factors @ [tempFactor wTemp];
          wind = wind_speed_10m current;
          factors = factors @ [windFactor wind];
          factors = factors @ [moonFactor moonPhase];
          clouds = cloud_cover current;
          factors = factors @ [cloudFactor clouds];
          overallScore =
            js_round (of_int (foldl (\<lambda>sum f. sum + score f) 0 factors) / of_nat (length factors));
          rating = (if overallScore \<ge> 80 then Excellent
                    else if overallScore \<ge> 65 then Good
                    else if overallScore \<ge> 50 then Fair
                    else Poor);
          targetSpecies =
            [\<lparr>name_species = ''Largemouth Bass'',
              activity = (if wTemp \<ge> 60 \<and> wTemp \<le> 80 \<and> overallScore \<ge> 60 then High
                          else if wTemp \<ge> 50 \<and> wTemp \<le> 85 then Moderate else Low)\<rparr>,
             \<lparr>name_species = ''Crappie'',
              activity = (if wTemp \<ge> 55 \<and> wTemp \<le> 70 then High
                          else if wTemp \<ge> 45 \<and> wTemp \<le> 75 then Moderate else Low)\<rparr>,
             \<lparr>name_species = ''Catfish'',
              activity = (if wTemp \<ge> 70 \<and> clouds \<ge> 50 then High
                          else if wTemp \<ge> 60 then Moderate else Low)\<rparr>,
             \<lparr>name_species = ''Bluegill'',
              activity = (if wTemp \<ge> 65 \<and> wTemp \<le> 80 then High
                          else if wTemp \<ge> 55 then Moderate else Low)\<rparr>];
          tips = generateTips wind wTemp pressure moonPhase clouds
      in \<lparr>overallScore = overallScore, rating = rating, factors = factors,
          bestTime = hd (major solunar), targetSpecies = targetSpecies, tips = tips\<rparr>)"

text \<open>
  The object of the \<^verbatim>\<open>catch\<close> block:
  \<^verbatim>\<open>
  setConditions({ overallScore: 60, rating: 'Fair', factors: [], bestTime: '6am-8am',
    targetSpecies: [{ name: 'Largemouth Bass', activity: 'Moderate' },
                    { name: 'Crappie', activity: 'Moderate' }],
    tips: ['Check local conditions before heading out'] });
  \<close>
\<close>

definition defaultConditions :: FishingConditions where
  "defaultConditions =
     \<lparr>overallScore = 60, rating = Fair, factors = [], bestTime = ''6am-8am'',
      targetSpecies = [\<lparr>name_species = ''Largemouth Bass'', activity = Moderate\<rparr>,
                       \<lparr>name_species = ''Crappie'', activity = Moderate\<rparr>],
      tips = [''Check local conditions before heading out'']\<rparr>"

text \<open>
  The component \<^verbatim>\<open>FishActivityIndex({ lat, lng, waterTemp = 68 })\<close>: its props, with the
  optional water temperature, and its React state.
\<close>

record FishActivityIndexProps =
  lat :: real
  lng :: real
  waterTemp :: "real option"

record FishActivityIndexState =
  conditions :: "FishingConditions option"
  loading :: bool
  moonData :: "MoonInfo option"

text \<open>The water temperature the component works with: the prop, or its default 68.\<close>

definition effectiveWaterTemp :: "FishActivityIndexProps \<Rightarrow> real" where
  "effectiveWaterTemp props = (case waterTemp props of None \<Rightarrow> 68 | Some t \<Rightarrow> t)"

text \<open>
  What the weather request of \<^verbatim>\<open>calculateConditions\<close> comes to: \<^verbatim>\<open>fetch\<close> rejects,
  \<^verbatim>\<open>response.json()\<close> rejects, or a body is parsed, whose \<open>current\<close> member may be
  missing (reading \<^verbatim>\<open>current.pressure_msl\<close> then raises a TypeError).
\<close>

datatype 'a WeatherResponse = FetchFails | JsonFails | Body "'a option"

text \<open>
  \<^verbatim>\<open>
  const calculateConditions = useCallback(async () => {
    setLoading(true);
    try {
      const response = await fetch(...);
      const weather = await response.json();
      const current = weather.current;
      const moonPhase = getMoonPhase(new Date());
      setMoonData(moonPhase);
      const solunar = getSolunarPeriods(new Date(), lat);
      ... setConditions({ overallScore, rating, factors, ... });
    } catch (err) {
      console.error('Error calculating fishing conditions:', err);
      setConditions({ overallScore: 60, rating: 'Fair', ... });
    } finally {
      setLoading(false);
    }
  }, [lat, lng, waterTemp]);
  \<close>
  The callback is a transformer of the component state: it takes the outcome of the
  request and the two clock readings of \<^verbatim>\<open>new Date()\<close>, and returns the state once
  the promise has settled. Every exception of the \<^verbatim>\<open>try\<close> block is a branch that ends
  in the \<^verbatim>\<open>catch\<close> block.
\<close>

definition calculateConditions ::
    "int \<Rightarrow> FishActivityIndexProps \<Rightarrow> Current WeatherResponse \<Rightarrow> Date \<Rightarrow> Date \<Rightarrow>
     FishActivityIndexState \<Rightarrow> FishActivityIndexState" where
  "calculateConditions tzOffset props response now1 now2 st =
     (let wTemp = effectiveWaterTemp props;
          st = st\<lparr>loading := True\<rparr>
      in case response of
           FetchFails \<Rightarrow> st\<lparr>conditions := Some defaultConditions, loading := False\<rparr>
         | JsonFails \<Rightarrow> st\<lparr>conditions := Some defaultConditions, loading := False\<rparr>
         | Body weather_current \<Rightarrow>
             (let moonPhase = getMoonPhase tzOffset now1;
                  st = st\<lparr>moonData := Some moonPhase\<rparr>;
                  solunar = getSolunarPeriods tzOffset now2 (lat props)
              in case weather_current of
                   None \<Rightarrow> st\<lparr>conditions := Some defaultConditions, loading := False\<rparr>
                 | Some current \<Rightarrow>
                     st\<lparr>conditions := Some (scoredConditions wTemp current moonPhase solunar),
                        loading := False\<rparr>))"

text \<open>
  The tips the component renders: \<^verbatim>\<open>conditions.tips.slice(0, 3).map(...)\<close>.
\<close>

definition renderedTips :: "FishingConditions \<Rightarrow> string list" where
  "renderedTips c = take 3 (tips c)"

section \<open>The specification's wording of the fishing score and tips\<close>

text \<open>
  The specification describes the overall score as the unweighted arithmetic mean of
  the five sub-scores rounded to the nearest integer, bucketed into a rating at 80, 65
  and 50. These two definitions follow that wording; they are compared with the code
  below.
\<close>

definition spec_overallScore :: "int \<Rightarrow> int \<Rightarrow> int \<Rightarrow> int \<Rightarrow> int \<Rightarrow> int" where
  "spec_overallScore pressureScore tempScore windScore moonScore cloudScore =
     round ((of_int pressureScore + of_int tempScore + of_int windScore
             + of_int moonScore + of_int cloudScore) / (5 :: real))"

definition spec_rating :: "int \<Rightarrow> Rating" where
  "spec_rating s =
     (if s \<ge> 80 then Excellent else if s \<ge> 65 then Good else if s \<ge> 50 then Fair else Poor)"

text \<open>
  The threshold conditionals of the tips in their evaluation order, each with its tip,
  and the tips whose conditional matches, in that order.
\<close>

definition spec_tipTable ::
    "real \<Rightarrow> real \<Rightarrow> real \<Rightarrow> MoonInfo \<Rightarrow> real \<Rightarrow> (bool \<times> string) list" where
  "spec_tipTable wind wTemp pressure moonPhase clouds =
     [(wind \<ge> 5 \<and> wind \<le> 15, ''Fish the windward shoreline where baitfish concentrate''),
      (wTemp \<ge> 65 \<and> wTemp \<le> 75, ''Topwater lures effective in early morning''),
      (pressure \<ge> 29.8 \<and> pressure \<le> 30.0, ''Falling pressure - fish feeding aggressively''),
      (phase moonPhase = ''Full Moon'' \<or> phase moonPhase = ''New Moon'',
       ''Major solunar period - extended feeding windows''),
      (clouds \<ge> 50, ''Overcast conditions favor shallow water fishing'')]"

definition spec_matchedTips ::
    "real \<Rightarrow> real \<Rightarrow> real \<Rightarrow> MoonInfo \<Rightarrow> real \<Rightarrow> string list" where
  "spec_matchedTips wind wTemp pressure moonPhase clouds =
     map snd (filter fst (spec_tipTable wind wTemp pressure moonPhase clouds))"

section \<open>Properties of the flood impact estimator\<close>

text \<open>
  C2, as the code computes it: at elevation 610 above the normal pool of 599 the
  difference is 11 ft, the additional area 1980 acres, 72 structures are impacted, and
  the evacuation zone is 2 square miles, because \<open>(11 - 8) * 0.5 = 1.5\<close> and
  \<^verbatim>\<open>Math.round\<close> rounds the tie upwards.
\<close>

theorem floodImpact_610:
  "normalPoolElevation SARDIS_LAKE_DATA = 599 \<and>
   difference (calculateFloodImpact 610) = 11 \<and>
   additionalAcres (calculateFloodImpact 610) = 1980 \<and>
   impactedStructures (calculateFloodImpact 610) = 72 \<and>
   evacuationZone (calculateFloodImpact 610) = 2"
  by (simp add: calculateFloodImpact_def SARDIS_LAKE_DATA_def js_round_def)

text \<open>
  C2 as the specification words it asks for an evacuation zone of 1 square mile at
  elevation 610; the code does not return that value.
\<close>

theorem floodImpact_610_evacuation_not_1:
  "evacuationZone (calculateFloodImpact 610) \<noteq> 1"
  by (simp add: calculateFloodImpact_def SARDIS_LAKE_DATA_def js_round_def)

text \<open>
  C3: for every elevation at or below the normal pool elevation the estimator reports
  no additional acres, no impacted structures and no evacuation zone.
\<close>

theorem floodImpact_below_normal:
  assumes "e \<le> normalPoolElevation SARDIS_LAKE_DATA"
  shows "additionalAcres (calculateFloodImpact e) = 0 \<and>
         impactedStructures (calculateFloodImpact e) = 0 \<and>
         evacuationZone (calculateFloodImpact e) = 0"
  using assms by (simp add: calculateFloodImpact_def Let_def)

theorem floodImpact_below_normal_witness:
  "(590::real) \<le> normalPoolElevation SARDIS_LAKE_DATA \<and>
   additionalAcres (calculateFloodImpact 590) = 0 \<and>
   impactedStructures (calculateFloodImpact 590) = 0 \<and>
   evacuationZone (calculateFloodImpact 590) = 0"
proof -
  have h: "(590::real) \<le> normalPoolElevation SARDIS_LAKE_DATA"
    by (simp add: SARDIS_LAKE_DATA_def)
  show ?thesis using h floodImpact_below_normal [OF h] by simp
qed

section \<open>Properties of the boat ramp classifier\<close>

text \<open>
  C5: for every ramp with minimum elevation 590 and optimal elevation 595, the status at
  596 ft is open with all vessel classes; at 592 ft it is limited with small craft only,
  and the message gives the 2.0 ft above the minimum with one decimal; at 588 ft it is
  closed with no launchable vessel class, and the message gives the 2.0 ft below the
  minimum with one decimal.
\<close>

theorem ramp_status_min590_optimal595:
  assumes "minElevation ramp = 590" and "optimalElevation ramp = 595"
  shows "getRampStatus ramp 596 =
           \<lparr>status = open_ramp, message = ''Fully operational - optimal conditions'',
            launchable = [''All vessels'', ''Large boats'', ''Pontoons'', ''PWC'']\<rparr> \<and>
         getRampStatus ramp 592 =
           \<lparr>status = limited_ramp, message = ''Limited access - 2.0 ft above minimum'',
            launchable = [''Small boats'', ''Kayaks'', ''Canoes'', ''PWC'']\<rparr> \<and>
         getRampStatus ramp 588 =
           \<lparr>status = closed_ramp, message = ''Closed - water 2.0 ft below minimum'',
            launchable = []\<rparr>"
  using assms
  by (simp add: getRampStatus_def toFixed1_def toFixed1_digits_def string_of_nat.simps
      digit_char_def)

theorem ramp_status_min590_optimal595_witness:
  "minElevation potato_hills = 590 \<and> optimalElevation potato_hills = 595 \<and>
   status (getRampStatus potato_hills 596) = open_ramp \<and>
   launchable (getRampStatus potato_hills 596) =
     [''All vessels'', ''Large boats'', ''Pontoons'', ''PWC''] \<and>
   status (getRampStatus potato_hills 592) = limited_ramp \<and>
   message (getRampStatus potato_hills 592) = ''Limited access - 2.0 ft above minimum'' \<and>
   status (getRampStatus potato_hills 588) = closed_ramp \<and>
   message (getRampStatus potato_hills 588) = ''Closed - water 2.0 ft below minimum'' \<and>
   launchable (getRampStatus potato_hills 588) = []"
proof -
  have m: "minElevation potato_hills = 590" by (simp add: potato_hills_def)
  have opt: "optimalElevation potato_hills = 595" by (simp add: potato_hills_def)
  show ?thesis using m opt ramp_status_min590_optimal595 [OF m opt] by simp
qed

section \<open>Properties of the recreation day rating\<close>

text \<open>
  C6: for a high of 78 degrees, 10 percent precipitation probability, wind of 8 mph and
  weather code 1 the internal score is 115 (100, plus 10 for the temperature, plus 5
  for the clear sky), which exceeds 100, and the rating is Excellent; for every day the
  rating is the bucket of the unclamped score at 80, 60 and 40.
\<close>

theorem rateDay_78_10_8_1:
  "rateDayForRecreation_score
     \<lparr>tempHigh = 78, precipProbability = 10, windSpeed = 8, weatherCode = 1\<rparr> = 115 \<and>
   rateDayForRecreation_score
     \<lparr>tempHigh = 78, precipProbability = 10, windSpeed = 8, weatherCode = 1\<rparr> > 100 \<and>
   rateDayForRecreation
     \<lparr>tempHigh = 78, precipProbability = 10, windSpeed = 8, weatherCode = 1\<rparr> = Excellent \<and>
   rateDayForRecreation day =
     (if rateDayForRecreation_score day \<ge> 80 then Excellent
      else if rateDayForRecreation_score day \<ge> 60 then Good
      else if rateDayForRecreation_score day \<ge> 40 then Fair
      else Poor)"
proof -
  have s: "rateDayForRecreation_score
     \<lparr>tempHigh = 78, precipProbability = 10, windSpeed = 8, weatherCode = 1\<rparr> = 115"
    by (simp add: rateDayForRecreation_score_def)
  show ?thesis
    by (simp add: s rateDayForRecreation_def Let_def)
qed

section \<open>Properties of the fishing activity scorer\<close>

text \<open>
  C7: when the weather request fails (\<^verbatim>\<open>fetch\<close> rejects, the JSON parse rejects, or the
  body has no \<open>current\<close> block) the callback stores the fixed default conditions, with
  overall score 60, rating Fair and exactly one tip, and ends with \<open>loading\<close> reset.
\<close>

theorem calculateConditions_fetch_failure:
  "conditions (calculateConditions tz props FetchFails now1 now2 st) = Some defaultConditions \<and>
   conditions (calculateConditions tz props JsonFails now1 now2 st) = Some defaultConditions \<and>
   conditions (calculateConditions tz props (Body None) now1 now2 st) = Some defaultConditions \<and>
   loading (calculateConditions tz props FetchFails now1 now2 st) = False \<and>
   loading (calculateConditions tz props JsonFails now1 now2 st) = False \<and>
   overallScore defaultConditions = 60 \<and>
   rating defaultConditions = Fair \<and>
   tips defaultConditions = [''Check local conditions before heading out''] \<and>
   length (tips defaultConditions) = 1"
  by (simp add: calculateConditions_def defaultConditions_def Let_def)

text \<open>
  C4: for every weather reading the overall score stored by the callback is the mean of
  the five sub-scores (pressure, water temperature, wind, moon phase, cloud cover)
  rounded to the nearest integer, so at most one half away from the mean, and the rating
  is Excellent from 80, Good from 65, Fair from 50 and Poor below.
\<close>

theorem overallScore_is_rounded_mean:
  "\<exists>c. conditions (calculateConditions tz props (Body (Some cur)) now1 now2 st) = Some c \<and>
       overallScore c =
         spec_overallScore
           (score (pressureFactor (pressure_msl cur * 0.02953)))
           (score (tempFactor (effectiveWaterTemp props)))
           (score (windFactor (wind_speed_10m cur)))
           (score (moonFactor (getMoonPhase tz now1)))
           (score (cloudFactor (cloud_cover cur))) \<and>
       \<bar>of_int (overallScore c)
          - (of_int (score (pressureFactor (pressure_msl cur * 0.02953)))
             + of_int (score (tempFactor (effectiveWaterTemp props)))
             + of_int (score (windFactor (wind_speed_10m cur)))
             + of_int (score (moonFactor (getMoonPhase tz now1)))
             + of_int (score (cloudFactor (cloud_cover cur)))) / (5 :: real)\<bar> \<le> 1 / 2 \<and>
       rating c = spec_rating (overallScore c)"
proof -
  let ?c = "scoredConditions (effectiveWaterTemp props) cur (getMoonPhase tz now1)
              (getSolunarPeriods tz now2 (lat props))"
  let ?p = "score (pressureFactor (pressure_msl cur * 0.02953))"
  let ?t = "score (tempFactor (effectiveWaterTemp props))"
  let ?w = "score (windFactor (wind_speed_10m cur))"
  let ?m = "score (moonFactor (getMoonPhase tz now1))"
  let ?cl = "score (cloudFactor (cloud_cover cur))"
  have stored: "conditions (calculateConditions tz props (Body (Some cur)) now1 now2 st) = Some ?c"
    by (simp add: calculateConditions_def Let_def)
  have mean: "overallScore ?c = spec_overallScore ?p ?t ?w ?m ?cl"
    by (simp add: scoredConditions_def Let_def spec_overallScore_def js_round_def round_def
        add.assoc)
  have near: "\<bar>of_int (spec_overallScore ?p ?t ?w ?m ?cl)
      - (of_int ?p + of_int ?t + of_int ?w + of_int ?m + of_int ?cl) / (5 :: real)\<bar> \<le> 1 / 2"
    unfolding spec_overallScore_def by (rule of_int_round_abs_le)
  have bucket: "rating ?c = spec_rating (overallScore ?c)"
    by (simp add: scoredConditions_def Let_def spec_rating_def)
  from stored mean near bucket show ?thesis by (intro exI [of _ ?c]) (simp only: simp_thms)
qed

text \<open>
  The sequence of \<open>push\<close> calls builds the matching tips of the table in its order, or
  the one default tip when none matches; the proof is generic in the five conditions
  and texts.
\<close>

lemma push_chain_filter:
  "(let tips = [];
        tips = (if b1 then tips @ [t1] else tips);
        tips = (if b2 then tips @ [t2] else tips);
        tips = (if b3 then tips @ [t3] else tips);
        tips = (if b4 then tips @ [t4] else tips);
        tips = (if b5 then tips @ [t5] else tips);
        tips = (if length tips = 0 then tips @ [d] else tips)
    in tips) =
   (if map snd (filter fst [(b1, t1), (b2, t2), (b3, t3), (b4, t4), (b5, t5)]) = [] then [d]
    else map snd (filter fst [(b1, t1), (b2, t2), (b3, t3), (b4, t4), (b5, t5)]))"
  by (cases b1; cases b2; cases b3; cases b4; cases b5) (simp_all add: Let_def)

lemma generateTips_matched:
  "generateTips wind wTemp pressure moonPhase clouds =
     (if spec_matchedTips wind wTemp pressure moonPhase clouds = []
      then [''Fish structure and cover in deeper water'']
      else spec_matchedTips wind wTemp pressure moonPhase clouds)"
  unfolding generateTips_def spec_matchedTips_def spec_tipTable_def
  by (rule push_chain_filter)

lemma length_spec_matchedTips:
  "length (spec_matchedTips wind wTemp pressure moonPhase clouds) \<le> 5"
proof -
  have "length (spec_matchedTips wind wTemp pressure moonPhase clouds)
          \<le> length (spec_tipTable wind wTemp pressure moonPhase clouds)"
    unfolding spec_matchedTips_def length_map by (rule length_filter_le)
  also have "\<dots> = 5" by (simp add: spec_tipTable_def)
  finally show ?thesis .
qed

lemma length_generateTips:
  "1 \<le> length (generateTips wind wTemp pressure moonPhase clouds) \<and>
   length (generateTips wind wTemp pressure moonPhase clouds) \<le> 5"
  using length_spec_matchedTips [of wind wTemp pressure moonPhase clouds]
  by (cases "spec_matchedTips wind wTemp pressure moonPhase clouds")
     (simp_all add: generateTips_matched)

lemma tips_scoredConditions:
  "tips (scoredConditions wTemp cur moonPhase solunar) =
     generateTips (wind_speed_10m cur) wTemp (pressure_msl cur * 0.02953) moonPhase (cloud_cover cur)"
  by (simp add: scoredConditions_def Let_def)

lemma conditions_calculateConditions_Body:
  "conditions (calculateConditions tz props (Body (Some cur)) now1 now2 st) =
     Some (scoredConditions (effectiveWaterTemp props) cur (getMoonPhase tz now1)
             (getSolunarPeriods tz now2 (lat props)))"
  by (simp add: calculateConditions_def Let_def)

text \<open>
  C8: for every weather reading the tips list the component shows, the first three of
  the tips the callback stores (\<^verbatim>\<open>conditions.tips.slice(0, 3)\<close>), contains at most
  three tips; they are the first three tips of the matching threshold conditionals in
  their fixed evaluation order, and the list is exactly the one default tip when no
  conditional matches.
\<close>

theorem rendered_tips_at_most_three:
  "\<exists>c. conditions (calculateConditions tz props (Body (Some cur)) now1 now2 st) = Some c \<and>
       length (renderedTips c) \<le> 3 \<and>
       1 \<le> length (renderedTips c) \<and>
       renderedTips c =
         (if spec_matchedTips (wind_speed_10m cur) (effectiveWaterTemp props)
               (pressure_msl cur * 0.02953) (getMoonPhase tz now1) (cloud_cover cur) = []
          then [''Fish structure and cover in deeper water'']
          else take 3
                 (spec_matchedTips (wind_speed_10m cur) (effectiveWaterTemp props)
                    (pressure_msl cur * 0.02953) (getMoonPhase tz now1) (cloud_cover cur))) \<and>
       renderedTips c = take 3 (tips c)"
proof -
  let ?c = "scoredConditions (effectiveWaterTemp props) cur (getMoonPhase tz now1)
              (getSolunarPeriods tz now2 (lat props))"
  let ?matched = "spec_matchedTips (wind_speed_10m cur) (effectiveWaterTemp props)
                    (pressure_msl cur * 0.02953) (getMoonPhase tz now1) (cloud_cover cur)"
  have stored: "conditions (calculateConditions tz props (Body (Some cur)) now1 now2 st) = Some ?c"
    by (rule conditions_calculateConditions_Body)
  have tips_c: "tips ?c =
      (if ?matched = [] then [''Fish structure and cover in deeper water''] else ?matched)"
    by (simp only: tips_scoredConditions generateTips_matched)
  have shown: "renderedTips ?c =
      (if ?matched = [] then [''Fish structure and cover in deeper water'']
       else take 3 ?matched)"
    unfolding renderedTips_def tips_c by simp
  have upper: "length (renderedTips ?c) \<le> 3"
    by (simp add: renderedTips_def)
  have lower: "1 \<le> length (renderedTips ?c)"
    unfolding shown by (cases ?matched) simp_all
  have first3: "renderedTips ?c = take 3 (tips ?c)"
    by (simp add: renderedTips_def)
  from stored upper lower shown first3 show ?thesis
    by (intro exI [of _ ?c]) (simp only: simp_thms)
qed

text \<open>One day after the reference new moon (UTC) the fishing index sees a new moon.\<close>

lemma getMoonPhase_day_after_epoch:
  "getMoonPhase 0 947268840000 = \<lparr>phase = ''New Moon'', illumination = 0\<rparr>"
  by (simp add: getMoonPhase_def getMoonPhase_lunarDay_def newMoon_def js_rem_def js_trunc_def)

text \<open>
  An input where the cap is at work: with wind 10 mph, water at 70 degrees, 1013 hPa
  (29.91 inHg), a new moon and 60 percent cloud cover all five conditionals match; the
  callback stores five tips and the component shows the first three.
\<close>

lemma rendered_tips_all_five_match:
  "map_option tips
     (conditions
        (calculateConditions 0 \<lparr>lat = 34.6619, lng = - 95.3890, waterTemp = Some 70\<rparr>
           (Body (Some \<lparr>pressure_msl = 1013, wind_speed_10m = 10, cloud_cover = 60\<rparr>))
           947268840000 947268840000
           \<lparr>conditions = None, loading = True, moonData = None\<rparr>)) =
     Some [''Fish the windward shoreline where baitfish concentrate'',
           ''Topwater lures effective in early morning'',
           ''Falling pressure - fish feeding aggressively'',
           ''Major solunar period - extended feeding windows'',
           ''Overcast conditions favor shallow water fishing''] \<and>
   map_option renderedTips
     (conditions
        (calculateConditions 0 \<lparr>lat = 34.6619, lng = - 95.3890, waterTemp = Some 70\<rparr>
           (Body (Some \<lparr>pressure_msl = 1013, wind_speed_10m = 10, cloud_cover = 60\<rparr>))
           947268840000 947268840000
           \<lparr>conditions = None, loading = True, moonData = None\<rparr>)) =
     Some [''Fish the windward shoreline where baitfish concentrate'',
           ''Topwater lures effective in early morning'',
           ''Falling pressure - fish feeding aggressively'']"
  by (simp add: calculateConditions_def scoredConditions_def generateTips_def Let_def
      effectiveWaterTemp_def getMoonPhase_day_after_epoch renderedTips_def)

section \<open>Properties of the remainder operator\<close>

text \<open>
  For a positive divisor the remainder of a nonnegative dividend lies in \<open>[0, y)\<close>, that
  of a negative dividend in \<open>(-y, 0]\<close>, and adding the divisor before reducing again
  gives the remainder of the floored division.
\<close>

lemma floor_mod_range:
  fixes x y :: real
  assumes "0 < y"
  shows "0 \<le> x - y * of_int \<lfloor>x / y\<rfloor>" and "x - y * of_int \<lfloor>x / y\<rfloor> < y"
proof -
  have "of_int \<lfloor>x / y\<rfloor> * y \<le> (x / y) * y"
    by (rule mult_right_mono) (use assms in simp_all)
  then have "of_int \<lfloor>x / y\<rfloor> * y \<le> x" using assms by simp
  then show "0 \<le> x - y * of_int \<lfloor>x / y\<rfloor>" by (simp add: mult.commute)
  have "x / y < of_int \<lfloor>x / y\<rfloor> + 1" by linarith
  then have "(x / y) * y < (of_int \<lfloor>x / y\<rfloor> + 1) * y"
    using assms by (rule mult_strict_right_mono)
  then have "x < (of_int \<lfloor>x / y\<rfloor> + 1) * y" using assms by simp
  then show "x - y * of_int \<lfloor>x / y\<rfloor> < y" by (simp add: algebra_simps)
qed

lemma js_rem_of_nonneg:
  assumes "0 \<le> x" and "0 < y"
  shows "js_rem x y = x - y * of_int \<lfloor>x / y\<rfloor>"
proof -
  have "\<not> x / y < 0" using assms by (simp add: not_less)
  then show ?thesis by (simp add: js_rem_def js_trunc_def)
qed

lemma js_rem_small:
  assumes "0 \<le> x" and "x < y"
  shows "js_rem x y = x"
proof -
  have "0 \<le> x / y" "x / y < 1" using assms by simp_all
  then have "\<lfloor>x / y\<rfloor> = 0" by (simp add: floor_eq_iff)
  moreover have "0 < y" using assms by simp
  ultimately show ?thesis using assms by (simp add: js_rem_of_nonneg)
qed

lemma js_rem_self:
  assumes "0 < y"
  shows "js_rem y y = 0"
  using assms by (simp add: js_rem_def js_trunc_def)

lemma js_rem_of_neg:
  assumes "x < 0" and "0 < y"
  shows "js_rem x y = x - y * of_int \<lceil>x / y\<rceil>"
proof -
  have "x / y < 0" using assms by (simp add: divide_neg_pos)
  then show ?thesis by (simp add: js_rem_def js_trunc_def)
qed

lemma js_rem_neg_range:
  assumes "x < 0" and "0 < y"
  shows "- y < js_rem x y" and "js_rem x y \<le> 0"
proof -
  have "(x / y) * y \<le> of_int \<lceil>x / y\<rceil> * y"
    by (rule mult_right_mono) (use assms in simp_all)
  then have "x \<le> of_int \<lceil>x / y\<rceil> * y" using assms by simp
  then show "js_rem x y \<le> 0" using assms by (simp add: js_rem_of_neg mult.commute)
  have "of_int \<lceil>x / y\<rceil> - 1 < x / y" by linarith
  then have "(of_int \<lceil>x / y\<rceil> - 1) * y < (x / y) * y"
    using assms(2) by (rule mult_strict_right_mono)
  then have "(of_int \<lceil>x / y\<rceil> - 1) * y < x" using assms by simp
  then show "- y < js_rem x y" using assms by (simp add: js_rem_of_neg algebra_simps)
qed

lemma js_rem_add_period:
  assumes "0 < y"
  shows "js_rem (js_rem x y + y) y = x - y * of_int \<lfloor>x / y\<rfloor>"
proof (cases "0 \<le> x")
  case True
  let ?r = "x - y * of_int \<lfloor>x / y\<rfloor>"
  have r: "js_rem x y = ?r" using True assms by (rule js_rem_of_nonneg)
  have rng: "0 \<le> ?r" "?r < y" using floor_mod_range [OF assms, of x] by simp_all
  have "0 \<le> ?r + y" using rng assms by simp
  then have "js_rem (?r + y) y = (?r + y) - y * of_int \<lfloor>(?r + y) / y\<rfloor>"
    using assms by (rule js_rem_of_nonneg)
  moreover have "\<lfloor>(?r + y) / y\<rfloor> = 1"
  proof -
    have "(?r + y) / y = ?r / y + 1" using assms by (simp add: add_divide_distrib)
    moreover have "0 \<le> ?r / y" "?r / y < 1" using rng assms by simp_all
    ultimately show ?thesis by (simp add: floor_eq_iff)
  qed
  ultimately show ?thesis by (simp add: r)
next
  case False
  then have neg: "x < 0" by simp
  let ?r = "x - y * of_int \<lceil>x / y\<rceil>"
  have r: "js_rem x y = ?r" using neg assms by (rule js_rem_of_neg)
  have rng: "- y < ?r" "?r \<le> 0" using js_rem_neg_range [OF neg assms] by (simp_all add: r)
  show ?thesis
  proof (cases "?r = 0")
    case True
    then have xy: "x / y = of_int \<lceil>x / y\<rceil>" using assms by (simp add: field_simps)
    have "\<lfloor>x / y\<rfloor> = \<lceil>x / y\<rceil>" by (subst xy) simp
    then show ?thesis using True assms by (simp add: r js_rem_self)
  next
    case False
    then have pos: "0 < ?r + y" "?r + y < y" using rng by simp_all
    have "js_rem (?r + y) y = ?r + y" using pos by (simp add: js_rem_small)
    moreover have "\<lceil>x / y\<rceil> = \<lfloor>x / y\<rfloor> + 1"
    proof -
      have nc: "x / y \<noteq> of_int \<lceil>x / y\<rceil>" using False assms by (auto simp add: field_simps)
      have "x / y \<noteq> of_int \<lfloor>x / y\<rfloor>"
      proof
        assume e: "x / y = of_int \<lfloor>x / y\<rfloor>"
        then have "\<lceil>x / y\<rceil> = \<lfloor>x / y\<rfloor>" by (metis ceiling_of_int)
        with e nc show False by simp
      qed
      then show ?thesis by (simp add: ceiling_altdef)
    qed
    ultimately show ?thesis by (simp add: r algebra_simps)
  qed
qed

section \<open>Properties of the moon phase functions\<close>

text \<open>
  The recreation planner's \<open>getMoonData\<close> normalises its lunar day: for every date it
  lies in \<open>[0, 29.53058867)\<close>, and the function has the synodic month as a period.
\<close>

lemma getMoonData_lunarDay_floor:
  "getMoonData_lunarDay tz d =
     (d - newMoon tz) / 86400000
       - 29.53058867 * of_int \<lfloor>(d - newMoon tz) / 86400000 / 29.53058867\<rfloor>"
proof -
  have P: "(0::real) < 29.53058867" by simp
  show ?thesis
    unfolding getMoonData_lunarDay_def Let_def js_rem_add_period [OF P] by simp
qed

lemma getMoonData_lunarDay_range:
  "0 \<le> getMoonData_lunarDay tz d \<and> getMoonData_lunarDay tz d < 29.53058867"
proof -
  have P: "(0::real) < 29.53058867" by simp
  show ?thesis
    unfolding getMoonData_lunarDay_floor
    using floor_mod_range [OF P, of "(d - newMoon tz) / 86400000"] by simp
qed

lemma getMoonData_lunarDay_periodic:
  "getMoonData_lunarDay tz (d + synodicMonth_ms) = getMoonData_lunarDay tz d"
proof -
  let ?a = "(d - newMoon tz) / 86400000"
  have a: "(d + synodicMonth_ms - newMoon tz) / 86400000 = ?a + 29.53058867"
    by (simp add: synodicMonth_ms_def field_simps)
  have "\<lfloor>(?a + 29.53058867) / 29.53058867\<rfloor> = \<lfloor>?a / 29.53058867 + 1\<rfloor>"
    by (simp add: add_divide_distrib)
  also have "\<dots> = \<lfloor>?a / 29.53058867\<rfloor> + 1" by simp
  finally have fl: "\<lfloor>(?a + 29.53058867) / 29.53058867\<rfloor> = \<lfloor>?a / 29.53058867\<rfloor> + 1" .
  show ?thesis
    unfolding getMoonData_lunarDay_floor a fl by (simp add: algebra_simps)
qed

lemma getMoonData_periodic:
  "getMoonData tz (d + synodicMonth_ms) = getMoonData tz d"
  unfolding getMoonData_def getMoonData_lunarDay_periodic ..

text \<open>
  The fishing index's \<open>getMoonPhase\<close> takes the plain remainder of the lunation count.
  From the reference new moon on it has the lunar day of \<open>getMoonData\<close>, the same phase
  names and the same period; before the reference new moon its lunar day is never
  positive and it reports a new moon for every date.
\<close>

lemma getMoonPhase_lunarDay_after_epoch:
  assumes "newMoon tz \<le> d"
  shows "getMoonPhase_lunarDay tz d = getMoonData_lunarDay tz d"
proof -
  let ?l = "(d - newMoon tz) / 1000 / 60 / 60 / 24 / 29.53058867"
  have nn: "0 \<le> ?l" using assms by simp
  have "js_rem ?l 1 = ?l - 1 * of_int \<lfloor>?l / 1\<rfloor>"
    using nn by (rule js_rem_of_nonneg) simp
  then show ?thesis
    unfolding getMoonPhase_lunarDay_def Let_def getMoonData_lunarDay_floor
    by (simp add: algebra_simps)
qed

lemma getMoonPhase_lunarDay_before_epoch:
  assumes "d < newMoon tz"
  shows "getMoonPhase_lunarDay tz d \<le> 0"
proof -
  let ?l = "(d - newMoon tz) / 1000 / 60 / 60 / 24 / 29.53058867"
  have "?l < 0" using assms by simp
  then have "js_rem ?l 1 \<le> 0" by (rule js_rem_neg_range) simp
  then show ?thesis
    unfolding getMoonPhase_lunarDay_def Let_def by (simp add: mult_le_0_iff)
qed

lemma getMoonPhase_before_epoch:
  assumes "d < newMoon tz"
  shows "getMoonPhase tz d = \<lparr>phase = ''New Moon'', illumination = 0\<rparr>"
  using getMoonPhase_lunarDay_before_epoch [OF assms]
  by (simp add: getMoonPhase_def Let_def)

lemma phase_getMoonData:
  "phase (getMoonData tz d) =
     (let lunarDay = getMoonData_lunarDay tz d
      in if lunarDay < 1.85 then ''New Moon''
         else if lunarDay < 5.53 then ''Waxing Crescent''
         else if lunarDay < 9.22 then ''First Quarter''
         else if lunarDay < 12.91 then ''Waxing Gibbous''
         else if lunarDay < 16.61 then ''Full Moon''
         else if lunarDay < 20.30 then ''Waning Gibbous''
         else if lunarDay < 23.99 then ''Last Quarter''
         else if lunarDay < 27.68 then ''Waning Crescent''
         else ''New Moon'')"
  unfolding getMoonData_def Let_def by (simp only: if_distrib [of phase] MoonInfo.simps)

lemma phase_getMoonPhase:
  "phase (getMoonPhase tz d) =
     (let lunarDay = getMoonPhase_lunarDay tz d
      in if lunarDay < 1.85 then ''New Moon''
         else if lunarDay < 5.53 then ''Waxing Crescent''
         else if lunarDay < 9.22 then ''First Quarter''
         else if lunarDay < 12.91 then ''Waxing Gibbous''
         else if lunarDay < 16.61 then ''Full Moon''
         else if lunarDay < 20.30 then ''Waning Gibbous''
         else if lunarDay < 23.99 then ''Last Quarter''
         else if lunarDay < 27.68 then ''Waning Crescent''
         else ''New Moon'')"
  unfolding getMoonPhase_def Let_def by (simp only: if_distrib [of phase] MoonInfo.simps)

lemma phases_agree_after_epoch:
  assumes "newMoon tz \<le> d"
  shows "phase (getMoonPhase tz d) = phase (getMoonData tz d)"
  unfolding phase_getMoonPhase phase_getMoonData getMoonPhase_lunarDay_after_epoch [OF assms] ..

lemma getMoonPhase_periodic_after_epoch:
  assumes "newMoon tz \<le> d"
  shows "getMoonPhase tz (d + synodicMonth_ms) = getMoonPhase tz d"
proof -
  have "0 \<le> synodicMonth_ms" by (simp add: synodicMonth_ms_def)
  then have "newMoon tz \<le> d + synodicMonth_ms" using assms by simp
  then show ?thesis
    unfolding getMoonPhase_def
    by (simp only: getMoonPhase_lunarDay_after_epoch assms getMoonData_lunarDay_periodic)
qed

text \<open>
  C1 asks for a lunar day in \<open>[0, 29.53058867)\<close> from both functions for every date. At
  1999-12-25T00:00:00Z (time value 946080000000, reference new moon taken in UTC) the
  lunar day of \<open>getMoonPhase\<close> is \<open>-9187/720\<close>, about \<open>-12.76\<close>, while that of
  \<open>getMoonData\<close> is about \<open>16.77\<close>, inside the interval.
\<close>

theorem lunarDay_1999_12_25:
  "getMoonPhase_lunarDay 0 946080000000 = - (9187 / 720) \<and>
   getMoonPhase_lunarDay 0 946080000000 < 0 \<and>
   getMoonData_lunarDay 0 946080000000 = 15093779803 / 900000000 \<and>
   0 \<le> getMoonData_lunarDay 0 946080000000 \<and>
   getMoonData_lunarDay 0 946080000000 < 29.53058867"
  by (simp add: getMoonPhase_lunarDay_def getMoonData_lunarDay_def newMoon_def js_rem_def
      js_trunc_def)

text \<open>
  C9 asks that the moon phase be the same one synodic month later. At
  1999-12-25T00:00:00Z \<open>getMoonPhase\<close> reports a new moon with illumination 0, and one
  synodic month later (exactly, or at the whole millisecond 948631442861 a \<^verbatim>\<open>Date\<close>
  holds) it reports a waning gibbous moon with illumination 75.
\<close>

theorem getMoonPhase_period_1999_12_25:
  "getMoonPhase 0 946080000000 = \<lparr>phase = ''New Moon'', illumination = 0\<rparr> \<and>
   getMoonPhase 0 (946080000000 + synodicMonth_ms) =
     \<lparr>phase = ''Waning Gibbous'', illumination = 75\<rparr> \<and>
   getMoonPhase 0 948631442861 = \<lparr>phase = ''Waning Gibbous'', illumination = 75\<rparr>"
  by (simp add: getMoonPhase_def getMoonPhase_lunarDay_def newMoon_def js_rem_def
      js_trunc_def synodicMonth_ms_def)

text \<open>
  C10 asks that \<open>getMoonPhase\<close> and \<open>getMoonData\<close> name the same phase for every date.
  At 1999-12-25T00:00:00Z the first names a new moon and the second a waning gibbous
  moon.
\<close>

theorem moon_phase_names_1999_12_25:
  "phase (getMoonPhase 0 946080000000) = ''New Moon'' \<and>
   phase (getMoonData 0 946080000000) = ''Waning Gibbous'' \<and>
   phase (getMoonPhase 0 946080000000) \<noteq> phase (getMoonData 0 946080000000)"
  by (simp add: getMoonPhase_def getMoonPhase_lunarDay_def getMoonData_def
      getMoonData_lunarDay_def newMoon_def js_rem_def js_trunc_def)

end
